theory Spec2Isabelle
  imports Complex_Main
begin

section \<open>Strings\<close>

text \<open>
  The repository is TypeScript. A string is modelled as a \<^typ>\<open>string\<close>, one \<^typ>\<open>char\<close>
  per code unit, so the model covers texts whose code units are below 256 (Latin-1).
  The white space of \<^verbatim>\<open>String.prototype.trim\<close> and of the regular expression class
  \<^verbatim>\<open>\s\<close> is, in that range: TAB, LF, VT, FF, CR, SPACE and NBSP.
\<close>

definition is_space :: "char \<Rightarrow> bool" where
  "is_space c = (of_char c \<in> {9, 10, 11, 12, 13, 32, 160 :: nat})"

text \<open>\<^verbatim>\<open>s.trim()\<close>\<close>

definition trim :: "string \<Rightarrow> string" where
  "trim s = rev (dropWhile is_space (rev (dropWhile is_space s)))"

text \<open>\<^verbatim>\<open>s.startsWith(p)\<close>\<close>

definition startsWith :: "string \<Rightarrow> string \<Rightarrow> bool" where
  "startsWith s p = (take (length p) s = p)"

text \<open>\<^verbatim>\<open>s.toLowerCase()\<close> on Latin-1: A-Z and the accented capitals 192-222 (but not 215).\<close>

definition lower_char :: "char \<Rightarrow> char" where
  "lower_char c =
     (let n = (of_char c :: nat)
      in if (65 \<le> n \<and> n \<le> 90) \<or> (192 \<le> n \<and> n \<le> 222 \<and> n \<noteq> 215)
         then char_of (n + 32) else c)"

definition toLowerCase :: "string \<Rightarrow> string" where
  "toLowerCase s = map lower_char s"

text \<open>
  A regular expression with the \<^verbatim>\<open>i\<close> flag compares an ASCII letter of the pattern with
  a character of the text after folding the case of ASCII letters only.
\<close>

definition fold_ascii :: "char \<Rightarrow> char" where
  "fold_ascii c =
     (let n = (of_char c :: nat)
      in if 65 \<le> n \<and> n \<le> 90 then char_of (n + 32) else c)"

text \<open>The decimal digits of a length, as a template literal \<^verbatim>\<open>${n}\<close> prints it.\<close>

fun string_of_nat :: "nat \<Rightarrow> string" where
  "string_of_nat n =
     (if n < 10 then [char_of (48 + n)]
      else string_of_nat (n div 10) @ [char_of (48 + n mod 10)])"

declare string_of_nat.simps [simp del]

text \<open>The two quote characters, which a string literal of the logic cannot hold.\<close>

definition dquote :: string where
  "dquote = [CHR 0x22]"

definition squote :: string where
  "squote = [CHR 0x27]"

section \<open>The document model\<close>

text \<open>
  \<^verbatim>\<open>ScrapedData\<close> of the Puppeteer and Firecrawl clients. The field \<^verbatim>\<open>text\<close> of a
  heading and of a link is \<open>htext\<close> and \<open>ltext\<close> here, the field \<^verbatim>\<open>type\<close> of an issue
  is \<open>itype\<close>. \<^verbatim>\<open>null\<close> and an absent optional field are \<^const>\<open>None\<close>. The route
  handler adds \<^verbatim>\<open>isBroken\<close> to every link before the analysis; the extractors leave it
  absent.
\<close>

record heading =
  tag :: string
  htext :: string
  level :: int

record link =
  href :: string
  ltext :: string
  isBroken :: "bool option"

record ScrapedData =
  url :: string
  title :: "string option"
  headings :: "heading list"
  links :: "link list"
  screenshot :: "string option"
  error :: "string option"

record issue =
  itype :: string
  description :: string
  severity :: string
  element :: "string option"

text \<open>JavaScript truthiness of a \<^verbatim>\<open>string | null\<close> and of an optional boolean.\<close>

definition truthy_str :: "string option \<Rightarrow> bool" where
  "truthy_str s = (case s of None \<Rightarrow> False | Some t \<Rightarrow> t \<noteq> [])"

definition truthy_bool :: "bool option \<Rightarrow> bool" where
  "truthy_bool b = (case b of None \<Rightarrow> False | Some v \<Rightarrow> v)"

text \<open>\<^verbatim>\<open>if (c) issues.push(x)\<close>\<close>

definition push_if :: "bool \<Rightarrow> 'a \<Rightarrow> 'a list \<Rightarrow> 'a list" where
  "push_if c x xs = (if c then xs @ [x] else xs)"

section \<open>The issue analyzer of the Puppeteer client\<close>

text \<open>
  \<^verbatim>\<open>analyzeWebsiteIssues\<close> of \<^verbatim>\<open>lib/puppeteer/client\<close>. Every operation inside its
  \<^verbatim>\<open>try\<close> block is defined on every well-typed \<^verbatim>\<open>ScrapedData\<close> (\<^verbatim>\<open>trim\<close> and
  \<^verbatim>\<open>length\<close> are only applied to strings and arrays, \<^verbatim>\<open>brokenLinks[0]\<close> is only read
  when the array is not empty), so the \<^verbatim>\<open>catch\<close> branch is unreachable and the function
  is total.
\<close>

definition h1Count :: "ScrapedData \<Rightarrow> nat" where
  "h1Count d = length (filter (\<lambda>h. level h = 1) (headings d))"

definition brokenLinks :: "ScrapedData \<Rightarrow> link list" where
  "brokenLinks d = filter (\<lambda>l. truthy_bool (isBroken l)) (links d)"

definition emptyLinks :: "ScrapedData \<Rightarrow> link list" where
  "emptyLinks d = filter (\<lambda>l. ltext l = [] \<or> trim (ltext l) = []) (links d)"

text \<open>
  \<^verbatim>\<open>!title || title.trim() === ''\<close>, and \<^verbatim>\<open>title && title.length < n\<close> (and
  \<^verbatim>\<open>> n\<close>): a \<^verbatim>\<open>null\<close> or empty title is falsy.
\<close>

definition title_missing :: "ScrapedData \<Rightarrow> bool" where
  "title_missing d = (case title d of None \<Rightarrow> True | Some t \<Rightarrow> t = [] \<or> trim t = [])"

definition title_shorter :: "ScrapedData \<Rightarrow> nat \<Rightarrow> bool" where
  "title_shorter d n = (case title d of None \<Rightarrow> False | Some t \<Rightarrow> t \<noteq> [] \<and> length t < n)"

definition title_longer :: "ScrapedData \<Rightarrow> nat \<Rightarrow> bool" where
  "title_longer d n = (case title d of None \<Rightarrow> False | Some t \<Rightarrow> t \<noteq> [] \<and> length t > n)"

text \<open>A \<^verbatim>\<open>string | null\<close> inside a template literal.\<close>

definition template_str :: "string option \<Rightarrow> string" where
  "template_str s = (case s of None \<Rightarrow> ''null'' | Some t \<Rightarrow> t)"

definition pp_analyzeWebsiteIssues :: "ScrapedData \<Rightarrow> issue list" where
  "pp_analyzeWebsiteIssues d =
    (let issues = [];
         issues = push_if (title_missing d)
           \<lparr>itype = ''Missing Title'',
            description = ''The page is missing a title which is important for SEO and accessibility.'',
            severity = ''high'', element = None\<rparr> issues;
         issues = push_if (title_shorter d 10)
           \<lparr>itype = ''Short Title'',
            description = ''The page title is very short. Consider using a more descriptive title.'',
            severity = ''medium'',
            element = Some (''<title>'' @ template_str (title d) @ ''</title>'')\<rparr> issues;
         issues = push_if (length (headings d) = 0)
           \<lparr>itype = ''No Headings'',
            description = ''The page has no headings which makes it difficult to understand the content structure.'',
            severity = ''medium'', element = None\<rparr> issues;
         issues = push_if (\<not> list_ex (\<lambda>h. level h = 1) (headings d))
           \<lparr>itype = ''Missing H1'',
            description = ''The page is missing an H1 heading which is important for SEO and content hierarchy.'',
            severity = ''medium'', element = None\<rparr> issues;
         issues = push_if (h1Count d > 1)
           \<lparr>itype = ''Multiple H1 Headings'',
            description = ''The page has '' @ string_of_nat (h1Count d)
               @ '' H1 headings. It'' @ squote @ ''s best practice to have only one main H1 heading.'',
            severity = ''low'', element = None\<rparr> issues;
         issues = push_if (length (brokenLinks d) > 0)
           \<lparr>itype = ''Broken Links'',
            description = ''The page contains '' @ string_of_nat (length (brokenLinks d))
               @ '' broken links that should be fixed.'',
            severity = ''high'',
            element = (case brokenLinks d of [] \<Rightarrow> None
                       | b # _ \<Rightarrow> Some (''<a href='' @ dquote @ href b @ dquote @ ''>'' @ ltext b @ ''</a>''))\<rparr> issues;
         issues = push_if (length (emptyLinks d) > 0)
           \<lparr>itype = ''Empty Link Text'',
            description = ''The page contains '' @ string_of_nat (length (emptyLinks d))
               @ '' links with no text which is bad for accessibility.'',
            severity = ''medium'',
            element = (case emptyLinks d of [] \<Rightarrow> None
                       | e # _ \<Rightarrow> Some (''<a href='' @ dquote @ href e @ dquote @ ''></a>''))\<rparr> issues
     in issues)"

section \<open>The issue analyzer of the Firecrawl client\<close>

text \<open>
  \<^verbatim>\<open>analyzeWebsiteIssues\<close> of \<^verbatim>\<open>lib/firecrawl/client\<close>, the one the route handler
  imports. Its \<^verbatim>\<open>try\<close> block cannot throw on well-typed data either.
\<close>

text \<open>
  The loop over \<^verbatim>\<open>headingLevels\<close>: true when some level exceeds its predecessor by more
  than one (the loop pushes one issue and breaks).
\<close>

fun skips_level :: "int list \<Rightarrow> bool" where
  "skips_level (a # b # rest) = (b > a + 1 \<or> skips_level (b # rest))"
| "skips_level _ = False"

definition emptyHeadings :: "ScrapedData \<Rightarrow> heading list" where
  "emptyHeadings d = filter (\<lambda>h. trim (htext h) = []) (headings d)"

text \<open>\<^verbatim>\<open>/^(click here|here|read more|more|link)$/i.test(s)\<close>\<close>

definition non_descriptive :: "string \<Rightarrow> bool" where
  "non_descriptive s =
     (map fold_ascii s \<in> set [''click here'', ''here'', ''read more'', ''more'', ''link''])"

definition nonDescriptiveLinks :: "ScrapedData \<Rightarrow> link list" where
  "nonDescriptiveLinks d = filter (\<lambda>l. non_descriptive (trim (ltext l))) (links d)"

definition fc_analyzeWebsiteIssues :: "ScrapedData \<Rightarrow> issue list" where
  "fc_analyzeWebsiteIssues d =
    (let issues = [];
         issues = push_if (title_missing d)
           \<lparr>itype = ''Missing Title'',
            description = ''The page is missing a title which is important for SEO and accessibility.'',
            severity = ''high'', element = None\<rparr> issues;
         issues = push_if (title_shorter d 10)
           \<lparr>itype = ''Short Title'',
            description = ''The page title is too short. Consider making it more descriptive.'',
            severity = ''medium'', element = title d\<rparr> issues;
         issues = push_if (title_longer d 60)
           \<lparr>itype = ''Long Title'',
            description = ''The page title is too long and may be truncated in search results.'',
            severity = ''medium'', element = title d\<rparr> issues;
         issues = push_if (h1Count d = 0)
           \<lparr>itype = ''Missing H1'',
            description = ''The page is missing an H1 heading which is important for SEO.'',
            severity = ''high'', element = None\<rparr> issues;
         issues = push_if (h1Count d > 1)
           \<lparr>itype = ''Multiple H1s'',
            description = ''The page has multiple H1 headings. Consider using only one H1 per page.'',
            severity = ''medium'', element = None\<rparr> issues;
         issues = push_if (skips_level (map level (headings d)))
           \<lparr>itype = ''Heading Hierarchy'',
            description = ''Heading levels should not skip levels (e.g., H1 directly to H3).'',
            severity = ''medium'', element = None\<rparr> issues;
         issues = push_if (length (emptyHeadings d) > 0)
           \<lparr>itype = ''Empty Headings'',
            description = ''Found '' @ string_of_nat (length (emptyHeadings d))
               @ '' empty heading(s). All headings should have descriptive text.'',
            severity = ''medium'', element = None\<rparr> issues;
         issues = push_if (length (emptyLinks d) > 0)
           \<lparr>itype = ''Empty Links'',
            description = ''Found '' @ string_of_nat (length (emptyLinks d))
               @ '' link(s) without descriptive text.'',
            severity = ''medium'', element = None\<rparr> issues;
         issues = push_if (length (nonDescriptiveLinks d) > 0)
           \<lparr>itype = ''Non-descriptive Links'',
            description = ''Found '' @ string_of_nat (length (nonDescriptiveLinks d))
               @ '' link(s) with non-descriptive text like '' @ dquote @ ''click here'' @ dquote @ ''.'',
            severity = ''low'', element = None\<rparr> issues
     in issues)"

text \<open>The issues of a given type in an issue list.\<close>

definition of_type :: "string \<Rightarrow> issue list \<Rightarrow> issue list" where
  "of_type t issues = filter (\<lambda>i. itype i = t) issues"


section \<open>The heuristic content analysis\<close>

text \<open>
  The functions of the content analyzer module that work without a language model.
  A JavaScript number is modelled by an exact rational: the counts below are bounded by
  the length of a string, far below \<open>2\<^sup>5\<^sup>3\<close>, so sums and products of counts are exact,
  and a correctly rounded quotient of two such counts compares with the literals
  \<^verbatim>\<open>0.3\<close>, \<^verbatim>\<open>0.1\<close>, \<^verbatim>\<open>40\<close>, \<^verbatim>\<open>70\<close> as the exact quotient does. The one
  special value that can arise, \<^verbatim>\<open>NaN\<close> from \<^verbatim>\<open>0 / 0\<close>, is a value of its own.
\<close>

datatype number = Num rat | NaN

text \<open>
  \<^verbatim>\<open>s.split(re)\<close> for a regular expression \<^verbatim>\<open>re\<close> that matches a non-empty run of
  separator characters (\<^verbatim>\<open>/\s+/\<close>, \<^verbatim>\<open>/[.!?]+/\<close>): the pieces between the maximal runs,
  with an empty first piece when the string starts with a separator and an empty last
  piece when it ends with one; the empty string gives one empty piece. The second
  argument holds the current piece in reverse, the third tells that the previous
  character was a separator.
\<close>

fun split_runs :: "(char \<Rightarrow> bool) \<Rightarrow> string \<Rightarrow> string \<Rightarrow> bool \<Rightarrow> string list" where
  "split_runs sep [] cur in_sep = [rev cur]"
| "split_runs sep (c # cs) cur in_sep =
     (if sep c then
        (if in_sep then split_runs sep cs cur True
         else rev cur # split_runs sep cs [] True)
      else split_runs sep cs (c # cur) False)"

definition split_re :: "(char \<Rightarrow> bool) \<Rightarrow> string \<Rightarrow> string list" where
  "split_re sep s = split_runs sep s [] False"

definition is_sentence_end :: "char \<Rightarrow> bool" where
  "is_sentence_end c = (c = CHR ''.'' \<or> c = CHR ''!'' \<or> c = CHR ''?'')"

text \<open>\<^verbatim>\<open>.filter(Boolean)\<close> on an array of strings keeps the non-empty ones.\<close>

definition filter_Boolean :: "string list \<Rightarrow> string list" where
  "filter_Boolean xs = filter (\<lambda>x. x \<noteq> []) xs"

text \<open>
  \<^verbatim>\<open>calculateReadabilityScore\<close>. With no word, \<^verbatim>\<open>longWords / words.length\<close> is
  \<^verbatim>\<open>0 / 0\<close>, that is \<^verbatim>\<open>NaN\<close>, and \<^verbatim>\<open>NaN\<close> goes through the product, the sum,
  \<^verbatim>\<open>Math.min\<close> and \<^verbatim>\<open>Math.max\<close> unchanged.
\<close>

definition calculateReadabilityScore :: "string \<Rightarrow> number" where
  "calculateReadabilityScore text =
    (let words = filter_Boolean (split_re is_space text);
         sentences = filter_Boolean (split_re is_sentence_end text)
     in if length sentences = 0 then Num 50
        else
          let avgWordsPerSentence = (of_nat (length words) :: rat) / of_nat (length sentences);
              longWords = length (filter (\<lambda>word. length word > 6) words)
          in if length words = 0 then NaN
             else
               let longWordPercentage = ((of_nat longWords :: rat) / of_nat (length words)) * 100;
                   score = 60 + avgWordsPerSentence * 2 + longWordPercentage / 2
               in Num (max 0 (min 100 score)))"

text \<open>\<^verbatim>\<open>getReadabilityLevel\<close>: a comparison with \<^verbatim>\<open>NaN\<close> is false.\<close>

definition num_less :: "number \<Rightarrow> rat \<Rightarrow> bool" where
  "num_less x b = (case x of NaN \<Rightarrow> False | Num r \<Rightarrow> r < b)"

definition getReadabilityLevel :: "number \<Rightarrow> string" where
  "getReadabilityLevel score =
     (if num_less score 40 then ''Easy''
      else if num_less score 70 then ''Medium''
      else ''Hard'')"

text \<open>
  The text that \<^verbatim>\<open>analyzeContent\<close> hands to the heuristics:
  \<^verbatim>\<open>`${title} ${headingTexts} ${linkTexts}`\<close>, the texts joined by single spaces.
\<close>

fun join :: "string \<Rightarrow> string list \<Rightarrow> string" where
  "join sep [] = []"
| "join sep [x] = x"
| "join sep (x # y # ys) = x @ sep @ join sep (y # ys)"

definition allText :: "ScrapedData \<Rightarrow> string" where
  "allText d =
     (case title d of None \<Rightarrow> [] | Some t \<Rightarrow> t) @ '' ''
       @ join '' '' (map htext (headings d)) @ '' ''
       @ join '' '' (map ltext (links d))"

text \<open>\<^verbatim>\<open>calculateSentiment\<close>\<close>

definition positiveWords :: "string list" where
  "positiveWords =
     [''good'', ''great'', ''best'', ''excellent'', ''amazing'', ''wonderful'', ''fantastic'',
      ''love'', ''like'', ''enjoy'', ''happy'', ''pleased'', ''satisfied'', ''perfect'',
      ''outstanding'', ''brilliant'', ''awesome'', ''incredible'', ''superb'']"

definition negativeWords :: "string list" where
  "negativeWords =
     [''bad'', ''terrible'', ''awful'', ''horrible'', ''worst'', ''hate'', ''dislike'', ''angry'',
      ''frustrated'', ''disappointed'', ''sad'', ''poor'', ''failed'', ''broken'', ''wrong'',
      ''error'', ''problem'', ''issue'', ''difficult'']"

text \<open>One round of the \<^verbatim>\<open>forEach\<close> over the words, on the pair of counters.\<close>

definition count_word :: "string \<Rightarrow> nat \<times> nat \<Rightarrow> nat \<times> nat" where
  "count_word word counts =
     (let (positiveCount, negativeCount) = counts;
          positiveCount = (if word \<in> set positiveWords then positiveCount + 1 else positiveCount);
          negativeCount = (if word \<in> set negativeWords then negativeCount + 1 else negativeCount)
      in (positiveCount, negativeCount))"

definition sentimentCounts :: "string \<Rightarrow> nat \<times> nat" where
  "sentimentCounts text = fold count_word (split_re is_space (toLowerCase text)) (0, 0)"

definition calculateSentiment :: "string \<Rightarrow> rat" where
  "calculateSentiment text =
     (let (positiveCount, negativeCount) = sentimentCounts text;
          totalSentimentWords = positiveCount + negativeCount
      in if totalSentimentWords = 0 then 0
         else (of_nat positiveCount - of_nat negativeCount) / of_nat totalSentimentWords)"

text \<open>\<^verbatim>\<open>getSentimentAnalysis\<close>\<close>

definition getSentimentAnalysis :: "rat \<Rightarrow> string" where
  "getSentimentAnalysis score =
     (if score > 3 / 10 then ''Very Positive''
      else if score > 1 / 10 then ''Positive''
      else if score > - (1 / 10) then ''Neutral''
      else if score > - (3 / 10) then ''Negative''
      else ''Very Negative'')"

text \<open>
  The hit counts in the words of the specification: the number of white-space separated
  words of the lower-cased text that are in a word list.
\<close>

definition hits :: "string list \<Rightarrow> string \<Rightarrow> nat" where
  "hits wordlist text =
     length (filter (\<lambda>w. w \<in> set wordlist) (split_re is_space (toLowerCase text)))"

text \<open>\<^verbatim>\<open>generateSuggestions\<close>\<close>

definition totalTextLength :: "ScrapedData \<Rightarrow> nat" where
  "totalTextLength d = fold (\<lambda>h acc. acc + length (htext h)) (headings d) 0"

definition genericSuggestions :: "string list" where
  "genericSuggestions =
     [''Content structure looks good - consider adding more interactive elements'',
      ''Optimize images for better loading performance'',
      ''Add internal links to improve navigation'']"

definition generateSuggestions :: "ScrapedData \<Rightarrow> string list" where
  "generateSuggestions d =
    (let suggestions = [];
         suggestions =
           (if h1Count d = 0
            then suggestions @ [''Add an H1 heading to improve SEO and content structure'']
            else if h1Count d > 1
            then suggestions @ [''Consider using only one H1 heading per page for better SEO'']
            else suggestions);
         suggestions = push_if (length (links d) > 0)
           ''Review all links to ensure they are working properly'' suggestions;
         suggestions = push_if (totalTextLength d < 300)
           ''Consider adding more content to improve SEO and provide better value to users''
           suggestions;
         suggestions = push_if (\<not> truthy_str (screenshot d))
           ''Add visual elements or images to make the content more engaging'' suggestions;
         suggestions =
           (if length suggestions = 0 then suggestions @ genericSuggestions else suggestions)
     in suggestions)"

section \<open>The link probers\<close>

text \<open>
  What the network answers to the request for one link is a parameter of the model.
  \<^verbatim>\<open>checkBrokenLinks\<close> of the Firecrawl client sends a \<^verbatim>\<open>HEAD\<close> request with
  \<^verbatim>\<open>fetch\<close>, which resolves to a response with a status or rejects (network failure,
  time-out). \<^verbatim>\<open>response.ok\<close> holds for the statuses 200 to 299.
\<close>

datatype fetch_result = Response nat | Rejected

definition fc_probe :: "(string \<Rightarrow> fetch_result) \<Rightarrow> string \<Rightarrow> string \<times> bool" where
  "fc_probe fetch u =
     (case fetch u of
        Response status \<Rightarrow> (u, \<not> (200 \<le> status \<and> status \<le> 299))
      | Rejected \<Rightarrow> (u, True))"

text \<open>\<^verbatim>\<open>xs.slice(a, b)\<close> for \<open>a \<le> b\<close>\<close>

definition slice :: "'a list \<Rightarrow> nat \<Rightarrow> nat \<Rightarrow> 'a list" where
  "slice xs a b = take (b - a) (drop a xs)"

text \<open>The loop over the batches of ten: the index \<open>i\<close> and the results so far
  (\<open>urls\<close> is the parameter \<^verbatim>\<open>links\<close>).\<close>

function fc_batches ::
  "(string \<Rightarrow> fetch_result) \<Rightarrow> string list \<Rightarrow> nat \<Rightarrow> (string \<times> bool) list \<Rightarrow> (string \<times> bool) list" where
  "fc_batches fetch urls i results =
     (if i < length urls then
        (let batch = slice urls i (i + 10);
             batchResults = map (fc_probe fetch) batch
         in fc_batches fetch urls (i + 10) (results @ batchResults))
      else results)"
  by pat_completeness auto
termination
  by (relation "measure (\<lambda>(fetch, urls, i, results). length urls - i)") auto

declare fc_batches.simps [simp del]

definition fc_checkBrokenLinks :: "(string \<Rightarrow> fetch_result) \<Rightarrow> string list \<Rightarrow> (string \<times> bool) list" where
  "fc_checkBrokenLinks fetch urls = fc_batches fetch urls 0 []"

text \<open>
  \<^verbatim>\<open>checkBrokenLinks\<close> of the Puppeteer client opens one page and navigates it to
  each link. The \<^verbatim>\<open>page.goto\<close> calls of a chunk are all started before any of them is
  awaited, on that one page, so a navigation can be superseded by the ones started after
  it: what a call settles to is not a function of its link. The model makes no assumption
  about it: the outcome of the call started for \<^verbatim>\<open>links[i]\<close> is a parameter indexed by
  \<open>i\<close>. A call resolves to a response with a status, resolves to \<^verbatim>\<open>null\<close>, or throws.
\<close>

datatype goto_result = GotoResponse nat | GotoNull | GotoThrows

text \<open>
  One run of the prober, as the browser lets it go: whether \<^verbatim>\<open>getBrowser\<close> and
  \<^verbatim>\<open>newPage\<close> give a page, whether \<^verbatim>\<open>setDefaultNavigationTimeout\<close> returns, what the
  navigations settle to, and whether \<^verbatim>\<open>page.close()\<close> returns, in the \<^verbatim>\<open>try\<close> block
  and in the \<^verbatim>\<open>catch\<close> block.
\<close>

record probe_run =
  probe_has_page :: bool
  probe_timeout_set :: bool
  probe_goto :: "nat \<Rightarrow> goto_result"
  probe_close_try :: bool
  probe_close_catch :: bool

text \<open>The callback of \<^verbatim>\<open>chunk.map\<close>, on the outcome of its \<^verbatim>\<open>page.goto\<close>.\<close>

definition pp_probe :: "goto_result \<Rightarrow> string \<Rightarrow> string \<times> bool" where
  "pp_probe outcome u =
     (case outcome of
        GotoResponse status \<Rightarrow> (u, status \<ge> 400)
      | GotoNull \<Rightarrow> (u, True)
      | GotoThrows \<Rightarrow> (u, True))"

text \<open>The first loop cuts the links into chunks of \<open>concurrencyLimit\<close>.\<close>

function pp_chunks :: "string list \<Rightarrow> nat \<Rightarrow> string list list \<Rightarrow> string list list" where
  "pp_chunks urls i chunks =
     (if i < length urls then pp_chunks urls (i + 5) (chunks @ [slice urls i (i + 5)])
      else chunks)"
  by pat_completeness auto
termination
  by (relation "measure (\<lambda>(urls, i, chunks). length urls - i)") auto

declare pp_chunks.simps [simp del]

text \<open>
  The second loop probes the chunks one after the other; \<open>k\<close> counts the navigations
  started before the chunk, so that the call for the \<open>j\<close>-th link of the chunk is call
  \<open>k + j\<close> of the run.
\<close>

fun pp_process ::
  "(nat \<Rightarrow> goto_result) \<Rightarrow> string list list \<Rightarrow> nat \<Rightarrow> (string \<times> bool) list \<Rightarrow> (string \<times> bool) list" where
  "pp_process goto [] k results = results"
| "pp_process goto (chunk # chunks) k results =
     pp_process goto chunks (k + length chunk)
       (results @ map (\<lambda>(i, u). pp_probe (goto i) u) (enumerate k chunk))"

text \<open>
  The whole function. The result is \<^const>\<open>None\<close> when the returned promise rejects, which
  happens when \<^verbatim>\<open>page.close()\<close> throws inside the \<^verbatim>\<open>catch\<close> block. The \<^verbatim>\<open>catch\<close> block
  reports every link as not broken.
\<close>

definition pp_catch :: "probe_run \<Rightarrow> string list \<Rightarrow> (string \<times> bool) list option" where
  "pp_catch run urls =
     (if probe_has_page run \<and> \<not> probe_close_catch run then None
      else Some (map (\<lambda>u. (u, False)) urls))"

definition pp_checkBrokenLinks :: "probe_run \<Rightarrow> string list \<Rightarrow> (string \<times> bool) list option" where
  "pp_checkBrokenLinks run urls =
     (if \<not> probe_has_page run then pp_catch run urls
      else if \<not> probe_timeout_set run then pp_catch run urls
      else
        (let results = pp_process (probe_goto run) (pp_chunks urls 0 []) 0 []
         in if \<not> probe_close_try run then pp_catch run urls
            else Some results))"

text \<open>A network for the examples: every request is answered with status 304.\<close>

definition answers_304 :: "string \<Rightarrow> fetch_result" where
  "answers_304 u = Response 304"

text \<open>
  Two runs of the Puppeteer prober for the examples. In the first everything goes well
  and every navigation gets status 200. In the second the second navigation supersedes
  the first, which throws, though both links are alive.
\<close>

definition goto_all_200 :: "nat \<Rightarrow> goto_result" where
  "goto_all_200 i = GotoResponse 200"

definition goto_first_superseded :: "nat \<Rightarrow> goto_result" where
  "goto_first_superseded i = (if i = 0 then GotoThrows else GotoResponse 200)"

definition smooth_run :: "(nat \<Rightarrow> goto_result) \<Rightarrow> probe_run" where
  "smooth_run g =
     \<lparr>probe_has_page = True, probe_timeout_set = True, probe_goto = g,
      probe_close_try = True, probe_close_catch = True\<rparr>"

text \<open>A third run, in which the browser gives no page.\<close>

definition no_page_run :: probe_run where
  "no_page_run =
     \<lparr>probe_has_page = False, probe_timeout_set = True, probe_goto = goto_all_200,
      probe_close_try = True, probe_close_catch = True\<rparr>"

section \<open>The structural extractors\<close>

subsection \<open>The Firecrawl client: regular expressions over the HTML text\<close>

text \<open>
  \<^verbatim>\<open>extractHeadings\<close> and \<^verbatim>\<open>extractLinks\<close> run a regular expression over the HTML
  text. The functions below are the matcher of each expression, written out: a match is
  tried at the head of the remaining text and gives the captured groups and the text
  after the match.

  \<^verbatim>\<open>[^>]*>\<close>: the class cannot cross a \<^verbatim>\<open>>\<close>, so however much the star gives
  back, the \<^verbatim>\<open>>\<close> of the pattern is the first one of the text.
\<close>

fun after_gt :: "string \<Rightarrow> string option" where
  "after_gt [] = None"
| "after_gt (c # cs) = (if c = CHR ''>'' then Some cs else after_gt cs)"

text \<open>The closing tag \<^verbatim>\<open><\/t>\<close> at the head of the text, letters compared as the \<^verbatim>\<open>i\<close> flag does.\<close>

definition closing_at :: "string \<Rightarrow> string \<Rightarrow> string option" where
  "closing_at t xs =
     (let pat = ''</'' @ t @ ''>''
      in if length pat \<le> length xs \<and> map fold_ascii (take (length pat) xs) = map fold_ascii pat
         then Some (drop (length pat) xs) else None)"

text \<open>The dot matches every character but a line terminator (LF and CR in Latin-1).\<close>

definition is_line_terminator :: "char \<Rightarrow> bool" where
  "is_line_terminator c = (of_char c \<in> {10, 13 :: nat})"

text \<open>
  \<^verbatim>\<open>(.*?)<\/t>\<close>: the lazy star stops at the first closing tag and fails at a line
  terminator that comes before one. The result is the captured text and the text after
  the closing tag.
\<close>

fun lazy_until :: "string \<Rightarrow> string \<Rightarrow> (string \<times> string) option" where
  "lazy_until t [] = None"
| "lazy_until t (c # cs) =
     (case closing_at t (c # cs) of
        Some rest \<Rightarrow> Some ([], rest)
      | None \<Rightarrow>
          if is_line_terminator c then None
          else (case lazy_until t cs of
                  None \<Rightarrow> None
                | Some (inner, rest) \<Rightarrow> Some (c # inner, rest)))"



lemma after_gt_shorter: "after_gt xs = Some r \<Longrightarrow> length r < length xs"
  by (induction xs) (auto split: if_splits)

lemma closing_at_shorter: "closing_at t xs = Some r \<Longrightarrow> length r < length xs"
  by (auto simp: closing_at_def Let_def split: if_splits)

lemma lazy_until_shorter: "lazy_until t xs = Some (inner, r) \<Longrightarrow> length r < length xs"
proof (induction xs arbitrary: inner)
  case Nil
  then show ?case by simp
next
  case (Cons c cs)
  show ?case
  proof (cases "closing_at t (c # cs)")
    case (Some rest)
    with Cons.prems show ?thesis by (auto dest: closing_at_shorter)
  next
    case None
    with Cons.prems obtain inner' where "lazy_until t cs = Some (inner', r)"
      by (auto split: if_splits option.splits)
    from Cons.IH [OF this] show ?thesis by simp
  qed
qed



text \<open>
  \<^verbatim>\<open>.replace(/<[^>]*>/g, '')\<close>: a \<^verbatim>\<open><\<close> and everything up to the next \<^verbatim>\<open>>\<close> goes;
  a \<^verbatim>\<open><\<close> with no \<^verbatim>\<open>>\<close> after it stays.
\<close>

function strip_tags :: "string \<Rightarrow> string" where
  "strip_tags [] = []"
| "strip_tags (c # cs) =
     (if c = CHR ''<'' then
        (case after_gt cs of Some rest \<Rightarrow> strip_tags rest | None \<Rightarrow> c # strip_tags cs)
      else c # strip_tags cs)"
  by pat_completeness auto
termination
  by (relation "measure length") (auto dest: after_gt_shorter)




text \<open>
  \<^verbatim>\<open>/<a[^>]*href=["']([^"']*)["'][^>]*>(.*?)<\/a>/gi\<close>. From the attribute name on
  nothing can be matched in two ways: \<^verbatim>\<open>[^"']*\<close> ends at the next quote of either
  kind, \<^verbatim>\<open>[^>]*\<close> at the next \<^verbatim>\<open>>\<close>.
\<close>

definition is_quote :: "char \<Rightarrow> bool" where
  "is_quote c = (c = CHR 0x22 \<or> c = CHR 0x27)"

fun match_href :: "string \<Rightarrow> (string \<times> string \<times> string) option" where
  "match_href (h # r # e # f # eq # q # rest) =
     (if map fold_ascii [h, r, e, f] = ''href'' \<and> eq = CHR ''='' \<and> is_quote q then
        (case dropWhile (\<lambda>c. \<not> is_quote c) rest of
           [] \<Rightarrow> None
         | q' # r2 \<Rightarrow>
             (case after_gt r2 of
                None \<Rightarrow> None
              | Some r3 \<Rightarrow>
                  (case lazy_until ''a'' r3 of
                     None \<Rightarrow> None
                   | Some (inner, r4) \<Rightarrow>
                       Some (takeWhile (\<lambda>c. \<not> is_quote c) rest, inner, r4))))
      else None)"
| "match_href _ = None"

text \<open>
  The first \<^verbatim>\<open>[^>]*\<close>, before \<^verbatim>\<open>href\<close>, is greedy: it takes a character when it can
  and the rest of the pattern is tried further on first; only when that fails is the
  attribute tried at the current position.
\<close>

fun match_attrs :: "string \<Rightarrow> (string \<times> string \<times> string) option" where
  "match_attrs [] = None"
| "match_attrs (c # cs) =
     (case (if c = CHR ''>'' then None else match_attrs cs) of
        Some m \<Rightarrow> Some m
      | None \<Rightarrow> match_href (c # cs))"

fun match_link :: "string \<Rightarrow> (string \<times> string \<times> string) option" where
  "match_link (lt # a # r) =
     (if lt = CHR ''<'' \<and> fold_ascii a = CHR ''a'' then match_attrs r else None)"
| "match_link _ = None"

fun exec_link :: "string \<Rightarrow> (string \<times> string \<times> string) option" where
  "exec_link [] = None"
| "exec_link (c # cs) =
     (case match_link (c # cs) of Some m \<Rightarrow> Some m | None \<Rightarrow> exec_link cs)"

lemma match_href_shorter:
  "match_href xs = Some (u, inner, r) \<Longrightarrow> length r < length xs"
proof (induction xs rule: match_href.induct)
  case (1 h r' e f eq q rest)
  from "1.prems" obtain q' r2 r3 where
    d: "dropWhile (\<lambda>c. \<not> is_quote c) rest = q' # r2" and
    g: "after_gt r2 = Some r3" and
    l: "lazy_until ''a'' r3 = Some (inner, r)"
    by (auto split: if_splits option.splits list.splits)
  have "length (dropWhile (\<lambda>c. \<not> is_quote c) rest) \<le> length rest"
    by (rule length_dropWhile_le)
  with d have "length r2 < length rest" by simp
  moreover from g have "length r3 < length r2" by (rule after_gt_shorter)
  moreover from l have "length r < length r3" by (rule lazy_until_shorter)
  ultimately show ?case by simp
qed simp_all

lemma match_attrs_shorter:
  "match_attrs xs = Some (u, inner, r) \<Longrightarrow> length r < length xs"
proof (induction xs)
  case Nil
  then show ?case by simp
next
  case (Cons c cs)
  show ?case
  proof (cases "if c = CHR ''>'' then None else match_attrs cs")
    case None
    with Cons.prems have "match_href (c # cs) = Some (u, inner, r)" by simp
    then show ?thesis by (rule match_href_shorter)
  next
    case (Some m)
    with Cons.prems have "match_attrs cs = Some (u, inner, r)"
      by (auto split: if_splits)
    from Cons.IH [OF this] show ?thesis by simp
  qed
qed

lemma match_link_shorter:
  "match_link xs = Some (u, inner, r) \<Longrightarrow> length r < length xs"
proof (induction xs rule: match_link.induct)
  case (1 lt a r')
  then show ?case by (auto split: if_splits dest!: match_attrs_shorter)
qed simp_all

lemma exec_link_shorter:
  "exec_link xs = Some (u, inner, r) \<Longrightarrow> length r < length xs"
proof (induction xs)
  case Nil
  then show ?case by simp
next
  case (Cons c cs)
  show ?case
  proof (cases "match_link (c # cs)")
    case None
    with Cons show ?thesis by fastforce
  next
    case (Some m)
    with Cons.prems show ?thesis by (auto dest: match_link_shorter)
  qed
qed

text \<open>
  The parts of \<^verbatim>\<open>new URL(baseUrl)\<close> that \<^verbatim>\<open>extractLinks\<close> reads. The URL parser
  belongs to the platform; its result is a parameter, \<^const>\<open>None\<close> when the constructor
  throws a \<^verbatim>\<open>TypeError\<close>.
\<close>

record URL =
  protocol :: string
  host :: string
  pathname :: string

text \<open>The conversion of a relative \<^verbatim>\<open>href\<close>; \<^const>\<open>None\<close> is the \<^verbatim>\<open>TypeError\<close>.\<close>

definition absolute_href :: "string \<Rightarrow> URL option \<Rightarrow> string option" where
  "absolute_href hr base =
     (if startsWith hr ''/'' then
        (case base of
           None \<Rightarrow> None
         | Some baseUrlObj \<Rightarrow> Some (protocol baseUrlObj @ ''//'' @ host baseUrlObj @ hr))
      else if startsWith hr ''./'' then
        (case base of
           None \<Rightarrow> None
         | Some baseUrlObj \<Rightarrow>
             Some (protocol baseUrlObj @ ''//'' @ host baseUrlObj @ pathname baseUrlObj @ drop 2 hr))
      else Some hr)"

text \<open>
  \<^verbatim>\<open>extractLinks\<close>: the \<^verbatim>\<open>while\<close> loop over the matches. The result is \<^const>\<open>None\<close>
  when the function throws.
\<close>

function extractLinks :: "string \<Rightarrow> URL option \<Rightarrow> link list option" where
  "extractLinks html base =
     (case exec_link html of
        None \<Rightarrow> Some []
      | Some (hr0, inner, rest) \<Rightarrow>
          (let txt = trim (strip_tags inner)
           in case absolute_href hr0 base of
                None \<Rightarrow> None
              | Some hr \<Rightarrow>
                  (case extractLinks rest base of
                     None \<Rightarrow> None
                   | Some ls \<Rightarrow>
                       Some ((if startsWith hr ''http'' \<and> txt \<noteq> []
                              then [\<lparr>href = hr, ltext = txt, isBroken = None\<rparr>] else []) @ ls))))"
  by pat_completeness auto
termination
  by (relation "measure (\<lambda>(html, base). length html)") (auto dest: exec_link_shorter)

declare extractLinks.simps [simp del]

subsection \<open>The Puppeteer client: the elements of the loaded page\<close>

text \<open>
  \<^verbatim>\<open>scrapeWebsite\<close> of the Puppeteer client reads the headings and the anchors from the
  document of the browser. The elements that \<^verbatim>\<open>querySelectorAll\<close> returns, in document
  order, are the input: of a heading its \<^verbatim>\<open>tagName\<close> and \<^verbatim>\<open>textContent\<close>, of an
  anchor its \<^verbatim>\<open>href\<close> and \<^verbatim>\<open>textContent\<close>. The \<^verbatim>\<open>href\<close> of an HTML anchor is a
  string, which the browser has resolved already; the \<^verbatim>\<open>href\<close> of an SVG anchor is an
  \<^verbatim>\<open>SVGAnimatedString\<close> object, truthy and without a \<^verbatim>\<open>startsWith\<close> method; any other
  element named \<open>a\<close> has none.
\<close>

datatype href_value = HrefString string | HrefAnimated | HrefAbsent

record element =
  tagName :: string
  el_href :: href_value
  textContent :: "string option"













section \<open>Properties of the issue analyzers\<close>

lemma push_if_simps:
  "push_if True x xs = xs @ [x]" "push_if False x xs = xs"
  by (simp_all add: push_if_def)

lemma of_type_Nil: "of_type t [] = []"
  by (simp add: of_type_def)

lemma of_type_Cons:
  "of_type t (x # xs) = (if itype x = t then x # of_type t xs else of_type t xs)"
  by (simp add: of_type_def)

lemma of_type_append: "of_type t (xs @ ys) = of_type t xs @ of_type t ys"
  by (simp add: of_type_def)

lemma of_type_push_if:
  "of_type t (push_if c x xs) = push_if (c \<and> itype x = t) x (of_type t xs)"
  by (simp add: of_type_def push_if_def)

lemmas analyzer_simps =
  Let_def of_type_push_if of_type_Nil of_type_append of_type_Cons push_if_simps



lemma h1Count_0_iff: "h1Count d = 0 \<longleftrightarrow> \<not> list_ex (\<lambda>h. level h = 1) (headings d)"
  by (simp add: h1Count_def list_ex_iff filter_empty_conv)




text \<open>
  C2 (as amended). For every document with no headings and no links, both analyzers
  return a non-empty issue list. The analyzer of the Puppeteer client returns exactly one
  issue of type \<open>No Headings\<close>, of severity \<open>medium\<close>, and exactly one of type
  \<open>Missing H1\<close> (of severity \<open>medium\<close>). The analyzer of the Firecrawl client has no
  \<open>No Headings\<close> rule: it returns no such issue, and exactly one \<open>Missing H1\<close> issue
  (of severity \<open>high\<close>).
\<close>

theorem pp_empty_document_issues:
  assumes "headings d = []" and "links d = []"
  shows "pp_analyzeWebsiteIssues d \<noteq> []
       \<and> map severity (of_type ''No Headings'' (pp_analyzeWebsiteIssues d)) = [''medium'']
       \<and> map severity (of_type ''Missing H1'' (pp_analyzeWebsiteIssues d)) = [''medium'']
       \<and> fc_analyzeWebsiteIssues d \<noteq> []
       \<and> of_type ''No Headings'' (fc_analyzeWebsiteIssues d) = []
       \<and> map severity (of_type ''Missing H1'' (fc_analyzeWebsiteIssues d)) = [''high'']"
proof -
  have 1: "map severity (of_type ''No Headings'' (pp_analyzeWebsiteIssues d)) = [''medium'']"
    using assms by (simp add: pp_analyzeWebsiteIssues_def analyzer_simps)
  have 2: "map severity (of_type ''Missing H1'' (pp_analyzeWebsiteIssues d)) = [''medium'']"
    using assms by (simp add: pp_analyzeWebsiteIssues_def analyzer_simps)
  have 3: "of_type ''No Headings'' (fc_analyzeWebsiteIssues d) = []"
    by (simp add: fc_analyzeWebsiteIssues_def analyzer_simps)
  have 4: "map severity (of_type ''Missing H1'' (fc_analyzeWebsiteIssues d)) = [''high'']"
    using assms by (simp add: fc_analyzeWebsiteIssues_def h1Count_def analyzer_simps)
  from 1 have 5: "pp_analyzeWebsiteIssues d \<noteq> []"
    by (auto simp: of_type_def)
  from 4 have 6: "fc_analyzeWebsiteIssues d \<noteq> []"
    by (auto simp: of_type_def)
  from 1 2 3 4 5 6 show ?thesis by blast
qed

theorem pp_empty_document_issues_witness:
  "headings \<lparr>url = ''https://x'', title = None, headings = [], links = [],
        screenshot = None, error = None\<rparr> = []
   \<and> links \<lparr>url = ''https://x'', title = None, headings = [], links = [],
        screenshot = None, error = None\<rparr> = []
   \<and> map severity (of_type ''No Headings'' (pp_analyzeWebsiteIssues
        \<lparr>url = ''https://x'', title = None, headings = [], links = [],
        screenshot = None, error = None\<rparr>)) = [''medium'']
   \<and> map severity (of_type ''Missing H1'' (pp_analyzeWebsiteIssues
        \<lparr>url = ''https://x'', title = None, headings = [], links = [],
        screenshot = None, error = None\<rparr>)) = [''medium'']"
  using pp_empty_document_issues [of "\<lparr>url = ''https://x'', title = None, headings = [], links = [],
        screenshot = None, error = None\<rparr>"]
  by simp

text \<open>The empty document under the analyzer of the Firecrawl client: no \<open>No Headings\<close>.\<close>

theorem fc_empty_document_counterexample:
  "map itype (fc_analyzeWebsiteIssues
        \<lparr>url = ''https://x'', title = None, headings = [], links = [],
        screenshot = None, error = None\<rparr>) = [''Missing Title'', ''Missing H1'']"
  by code_simp

text \<open>
  C7 (as amended). In the analyzer of the Firecrawl client, a document with no level-1
  heading gets exactly one \<open>Missing H1\<close> issue, of severity \<open>high\<close>, and a document
  with more than one level-1 heading gets exactly one \<open>Multiple H1s\<close> issue, of severity
  \<open>medium\<close>. In the analyzer of the Puppeteer client the single \<open>Missing H1\<close> issue
  has severity \<open>medium\<close>, and several level-1 headings give no \<open>Multiple H1s\<close> issue
  but exactly one \<open>Multiple H1 Headings\<close> issue, of severity \<open>low\<close>.
\<close>

theorem fc_h1_issues:
  "(h1Count d = 0 \<longrightarrow>
      map severity (of_type ''Missing H1'' (fc_analyzeWebsiteIssues d)) = [''high'']
    \<and> map severity (of_type ''Missing H1'' (pp_analyzeWebsiteIssues d)) = [''medium''])
 \<and> (h1Count d > 1 \<longrightarrow>
      map severity (of_type ''Multiple H1s'' (fc_analyzeWebsiteIssues d)) = [''medium'']
    \<and> of_type ''Multiple H1s'' (pp_analyzeWebsiteIssues d) = []
    \<and> map severity (of_type ''Multiple H1 Headings'' (pp_analyzeWebsiteIssues d)) = [''low''])"
proof (intro conjI impI)
  assume z: "h1Count d = 0"
  show "map severity (of_type ''Missing H1'' (fc_analyzeWebsiteIssues d)) = [''high'']"
    using z by (simp add: fc_analyzeWebsiteIssues_def analyzer_simps)
  from z have "\<not> list_ex (\<lambda>h. level h = 1) (headings d)"
    by (simp add: h1Count_0_iff)
  then show "map severity (of_type ''Missing H1'' (pp_analyzeWebsiteIssues d)) = [''medium'']"
    by (simp add: pp_analyzeWebsiteIssues_def analyzer_simps)
next
  assume m: "h1Count d > 1"
  show "map severity (of_type ''Multiple H1s'' (fc_analyzeWebsiteIssues d)) = [''medium'']"
    using m by (simp add: fc_analyzeWebsiteIssues_def analyzer_simps)
  show "of_type ''Multiple H1s'' (pp_analyzeWebsiteIssues d) = []"
    by (simp add: pp_analyzeWebsiteIssues_def analyzer_simps)
  show "map severity (of_type ''Multiple H1 Headings'' (pp_analyzeWebsiteIssues d)) = [''low'']"
    using m by (simp add: pp_analyzeWebsiteIssues_def analyzer_simps)
qed

theorem fc_h1_issues_witness:
  "h1Count \<lparr>url = ''https://x'', title = Some ''Example page title'',
        headings = [\<lparr>tag = ''h2'', htext = ''A'', level = 2\<rparr>], links = [],
        screenshot = None, error = None\<rparr> = 0
   \<and> map severity (of_type ''Missing H1'' (fc_analyzeWebsiteIssues
        \<lparr>url = ''https://x'', title = Some ''Example page title'',
        headings = [\<lparr>tag = ''h2'', htext = ''A'', level = 2\<rparr>], links = [],
        screenshot = None, error = None\<rparr>)) = [''high'']
   \<and> h1Count \<lparr>url = ''https://x'', title = Some ''Example page title'',
        headings = [\<lparr>tag = ''h1'', htext = ''A'', level = 1\<rparr>,
                    \<lparr>tag = ''h1'', htext = ''B'', level = 1\<rparr>], links = [],
        screenshot = None, error = None\<rparr> > 1
   \<and> map severity (of_type ''Multiple H1s'' (fc_analyzeWebsiteIssues
        \<lparr>url = ''https://x'', title = Some ''Example page title'',
        headings = [\<lparr>tag = ''h1'', htext = ''A'', level = 1\<rparr>,
                    \<lparr>tag = ''h1'', htext = ''B'', level = 1\<rparr>], links = [],
        screenshot = None, error = None\<rparr>)) = [''medium'']"
  using fc_h1_issues [of "\<lparr>url = ''https://x'', title = Some ''Example page title'',
        headings = [\<lparr>tag = ''h2'', htext = ''A'', level = 2\<rparr>], links = [],
        screenshot = None, error = None\<rparr>"]
    fc_h1_issues [of "\<lparr>url = ''https://x'', title = Some ''Example page title'',
        headings = [\<lparr>tag = ''h1'', htext = ''A'', level = 1\<rparr>,
                    \<lparr>tag = ''h1'', htext = ''B'', level = 1\<rparr>], links = [],
        screenshot = None, error = None\<rparr>"]
  by (simp add: h1Count_def)

text \<open>
  A document without a level-1 heading under the analyzer of the Puppeteer client: the
  \<open>Missing H1\<close> issue has severity \<open>medium\<close>.
\<close>

theorem pp_h1_counterexample:
  "h1Count \<lparr>url = ''https://x'', title = Some ''Example page title'',
        headings = [\<lparr>tag = ''h2'', htext = ''A'', level = 2\<rparr>], links = [],
        screenshot = None, error = None\<rparr> = 0
   \<and> map severity (of_type ''Missing H1'' (pp_analyzeWebsiteIssues
        \<lparr>url = ''https://x'', title = Some ''Example page title'',
        headings = [\<lparr>tag = ''h2'', htext = ''A'', level = 2\<rparr>], links = [],
        screenshot = None, error = None\<rparr>)) = [''medium'']"
  by code_simp

section \<open>Properties of the heuristic content analysis\<close>

lemma fold_count_word:
  "fold count_word ws (p, n) =
     (p + length (filter (\<lambda>w. w \<in> set positiveWords) ws),
      n + length (filter (\<lambda>w. w \<in> set negativeWords) ws))"
  by (induction ws arbitrary: p n) (simp_all add: count_word_def)

lemma sentimentCounts_hits:
  "sentimentCounts t = (hits positiveWords t, hits negativeWords t)"
  by (simp add: sentimentCounts_def hits_def fold_count_word)

text \<open>
  C8. For every text, the sentiment score is (positive hits - negative hits) divided by
  (positive hits + negative hits), the hits counted over the two fixed word lists, and it
  is 0 when both counts are zero. The label is \<open>Very Positive\<close> above 0.3,
  \<open>Positive\<close> above 0.1, \<open>Neutral\<close> above -0.1, \<open>Negative\<close> above -0.3 and
  \<open>Very Negative\<close> otherwise. A text with two positive hits and no negative hit has
  score 1 and label \<open>Very Positive\<close>.
\<close>

theorem sentiment_score_and_label:
  "calculateSentiment t =
     (if hits positiveWords t + hits negativeWords t = 0 then 0
      else (of_nat (hits positiveWords t) - of_nat (hits negativeWords t))
             / of_nat (hits positiveWords t + hits negativeWords t))
   \<and> getSentimentAnalysis (calculateSentiment t) =
     (if calculateSentiment t > 3 / 10 then ''Very Positive''
      else if calculateSentiment t > 1 / 10 then ''Positive''
      else if calculateSentiment t > - (1 / 10) then ''Neutral''
      else if calculateSentiment t > - (3 / 10) then ''Negative''
      else ''Very Negative'')
   \<and> (hits positiveWords t = 2 \<and> hits negativeWords t = 0 \<longrightarrow>
        calculateSentiment t = 1
        \<and> getSentimentAnalysis (calculateSentiment t) = ''Very Positive'')"
proof -
  have 1: "calculateSentiment t =
     (if hits positiveWords t + hits negativeWords t = 0 then 0
      else (of_nat (hits positiveWords t) - of_nat (hits negativeWords t))
             / of_nat (hits positiveWords t + hits negativeWords t))"
    by (simp add: calculateSentiment_def sentimentCounts_hits)
  have 2: "getSentimentAnalysis (calculateSentiment t) =
     (if calculateSentiment t > 3 / 10 then ''Very Positive''
      else if calculateSentiment t > 1 / 10 then ''Positive''
      else if calculateSentiment t > - (1 / 10) then ''Neutral''
      else if calculateSentiment t > - (3 / 10) then ''Negative''
      else ''Very Negative'')"
    by (simp only: getSentimentAnalysis_def)
  have 3: "calculateSentiment t = 1
        \<and> getSentimentAnalysis (calculateSentiment t) = ''Very Positive''"
    if "hits positiveWords t = 2 \<and> hits negativeWords t = 0"
  proof -
    from that 1 have "calculateSentiment t = 1" by simp
    then show ?thesis by (simp add: getSentimentAnalysis_def)
  qed
  from 1 2 3 show ?thesis by blast
qed

lemma hits_good_great:
  "hits positiveWords ''good great'' = 2 \<and> hits negativeWords ''good great'' = 0"
  by code_simp

theorem sentiment_score_and_label_witness:
  "hits positiveWords ''good great'' = 2 \<and> hits negativeWords ''good great'' = 0
   \<and> calculateSentiment ''good great'' = 1
   \<and> getSentimentAnalysis (calculateSentiment ''good great'') = ''Very Positive''"
  using sentiment_score_and_label [of "''good great''"] hits_good_great
  by blast

lemma totalTextLength_sum:
  "totalTextLength d = sum_list (map (\<lambda>h. length (htext h)) (headings d))"
proof -
  have "fold (\<lambda>h acc. acc + length (htext h)) hs a = a + sum_list (map (\<lambda>h. length (htext h)) hs)"
    for hs :: "heading list" and a
    by (induction hs arbitrary: a) simp_all
  then show ?thesis by (simp add: totalTextLength_def)
qed

text \<open>
  C9. For every document the suggestion list is not empty; when the document has exactly
  one level-1 heading, no link, at least 300 characters of heading text and a screenshot,
  so that no structural check applies, the list is the fixed list of generic suggestions.
\<close>

theorem suggestions_never_empty:
  "generateSuggestions d \<noteq> []
   \<and> (h1Count d = 1 \<and> links d = []
        \<and> sum_list (map (\<lambda>h. length (htext h)) (headings d)) \<ge> 300
        \<and> truthy_str (screenshot d)
      \<longrightarrow> generateSuggestions d = genericSuggestions)"
  by (simp add: generateSuggestions_def Let_def push_if_def genericSuggestions_def
        totalTextLength_sum)

theorem suggestions_never_empty_witness:
  "h1Count \<lparr>url = ''https://x'', title = None,
        headings = [\<lparr>tag = ''h1'', htext = replicate 300 (CHR ''a''), level = 1\<rparr>],
        links = [], screenshot = Some ''data:image/png;base64,AAAA'', error = None\<rparr> = 1
   \<and> generateSuggestions \<lparr>url = ''https://x'', title = None,
        headings = [\<lparr>tag = ''h1'', htext = replicate 300 (CHR ''a''), level = 1\<rparr>],
        links = [], screenshot = Some ''data:image/png;base64,AAAA'', error = None\<rparr>
       = genericSuggestions"
  using suggestions_never_empty [of "\<lparr>url = ''https://x'', title = None,
        headings = [\<lparr>tag = ''h1'', htext = replicate 300 (CHR ''a''), level = 1\<rparr>],
        links = [], screenshot = Some ''data:image/png;base64,AAAA'', error = None\<rparr>"]
  by (simp add: h1Count_def truthy_str_def)

text \<open>
  What holds of the readability score: a text with at least one word has a score
  between 50 and 100, and at least 60 when it also has a sentence; no text is rated
  \<open>Easy\<close>.
\<close>

lemma readability_with_words:
  assumes "filter_Boolean (split_re is_space t) \<noteq> []"
  shows "\<exists>r. calculateReadabilityScore t = Num r \<and> 50 \<le> r \<and> r \<le> 100
           \<and> (filter_Boolean (split_re is_sentence_end t) \<noteq> [] \<longrightarrow> 60 \<le> r)"
proof (cases "filter_Boolean (split_re is_sentence_end t) = []")
  case True
  then show ?thesis by (simp add: calculateReadabilityScore_def)
next
  case False
  define w where "w = filter_Boolean (split_re is_space t)"
  define s where "s = filter_Boolean (split_re is_sentence_end t)"
  define sc where "sc = 60 + (of_nat (length w) :: rat) / of_nat (length s) * 2
      + (of_nat (length (filter (\<lambda>word. length word > 6) w)) :: rat) / of_nat (length w) * 100 / 2"
  have "0 \<le> (of_nat (length w) :: rat) / of_nat (length s) * 2" by simp
  moreover have "0 \<le> (of_nat (length (filter (\<lambda>word. length word > 6) w)) :: rat) / of_nat (length w) * 100 / 2"
    by simp
  ultimately have "60 \<le> sc" unfolding sc_def by linarith
  then have "60 \<le> max 0 (min 100 sc)" "max 0 (min 100 sc) \<le> 100" by simp_all
  moreover have "calculateReadabilityScore t = Num (max 0 (min 100 sc))"
    using False assms by (simp add: calculateReadabilityScore_def Let_def w_def s_def sc_def)
  ultimately show ?thesis by auto
qed

lemma readability_never_easy:
  "getReadabilityLevel (calculateReadabilityScore t) \<noteq> ''Easy''"
proof (cases "filter_Boolean (split_re is_space t) = []")
  case True
  then have "calculateReadabilityScore t = Num 50 \<or> calculateReadabilityScore t = NaN"
    by (simp add: calculateReadabilityScore_def Let_def)
  then show ?thesis by (auto simp: getReadabilityLevel_def num_less_def)
next
  case False
  from readability_with_words [OF False] obtain r
    where "calculateReadabilityScore t = Num r" "50 \<le> r" by blast
  then show ?thesis by (simp add: getReadabilityLevel_def num_less_def)
qed

text \<open>
  C10. The claim is that the readability score of every text is at least 50. A text of
  white space only has no word but one sentence (the text itself), so the percentage of
  long words is \<^verbatim>\<open>0 / 0\<close> and the score is \<^verbatim>\<open>NaN\<close>, which is not at least 50 and
  which the clamp to \<open>[0, 100]\<close> lets through. \<^verbatim>\<open>analyzeContent\<close> passes such a text
  for a document with no title, no heading and no link.
\<close>

theorem readability_nan_on_blank_text:
  "allText \<lparr>url = ''https://x'', title = None, headings = [], links = [],
        screenshot = None, error = None\<rparr> = ''  ''
   \<and> calculateReadabilityScore ''  '' = NaN
   \<and> getReadabilityLevel (calculateReadabilityScore ''  '') = ''Hard''"
  by code_simp

section \<open>Properties of the link probers\<close>

lemma fc_batches_eq:
  "fc_batches fetch urls i results = results @ map (fc_probe fetch) (drop i urls)"
proof (induction fetch urls i results rule: fc_batches.induct)
  case (1 fetch urls i results)
  show ?case
  proof (cases "i < length urls")
    case True
    have "slice urls i (i + 10) @ drop (i + 10) urls = drop i urls"
      by (simp add: slice_def add.commute [of i 10] flip: drop_drop)
    then have "map (fc_probe fetch) (slice urls i (i + 10)) @ map (fc_probe fetch) (drop (i + 10) urls)
        = map (fc_probe fetch) (drop i urls)"
      by (simp flip: map_append)
    with True "1.IH" [OF True refl refl] show ?thesis
      by (subst fc_batches.simps) (simp add: Let_def)
  next
    case False
    then show ?thesis by (subst fc_batches.simps) simp
  qed
qed

lemma pp_chunks_concat:
  "concat (pp_chunks urls i chunks) = concat chunks @ drop i urls"
proof (induction urls i chunks rule: pp_chunks.induct)
  case (1 urls i chunks)
  show ?case
  proof (cases "i < length urls")
    case True
    have "slice urls i (i + 5) @ drop (i + 5) urls = drop i urls"
      by (simp add: slice_def add.commute [of i 5] flip: drop_drop)
    with True "1.IH" [OF True] show ?thesis
      by (subst pp_chunks.simps) simp
  next
    case False
    then show ?thesis by (subst pp_chunks.simps) simp
  qed
qed

lemma pp_process_eq:
  "pp_process goto chunks k results =
     results @ map (\<lambda>(i, u). pp_probe (goto i) u) (enumerate k (concat chunks))"
  by (induction chunks arbitrary: k results) (simp_all add: enumerate_append_eq)

lemma pp_results_closed_form:
  "pp_process goto (pp_chunks urls 0 []) 0 [] =
     map (\<lambda>(i, u). (u, case goto i of GotoResponse status \<Rightarrow> 400 \<le> status
                                 | GotoNull \<Rightarrow> True | GotoThrows \<Rightarrow> True)) (enumerate 0 urls)"
proof -
  have "(\<lambda>(i, u). pp_probe (goto i) u) =
        (\<lambda>(i, u). (u, case goto i of GotoResponse status \<Rightarrow> 400 \<le> status
                                 | GotoNull \<Rightarrow> True | GotoThrows \<Rightarrow> True))"
    by (auto simp: pp_probe_def fun_eq_iff split: goto_result.splits)
  then show ?thesis by (simp add: pp_process_eq pp_chunks_concat)
qed

lemma map_fst_probed:
  "map fst (map (\<lambda>(i, u). (u, f i)) (enumerate k urls)) = urls"
  by (induction urls arbitrary: k) simp_all

text \<open>
  C6 (as amended). The prober of the Firecrawl client returns exactly one outcome per input
  link, in the order of the input; a link is broken exactly when its request is rejected
  (failure or time-out) or its status is outside 200..299, so the outcome of a link
  depends on the answer to its own request only. The prober of the Puppeteer client,
  whenever it returns, also returns exactly one outcome per input link, in the order of
  the input. When it has a page, has set the time-out and can close the page, a link is
  broken exactly when the \<^verbatim>\<open>page.goto\<close> call started for it throws, gives no response
  or gives a status of 400 or more; nothing is said about what that call settles to,
  since the calls of a chunk share one page. When one of these steps fails, every link
  is reported as not broken, or the promise rejects if the page cannot be closed then.
\<close>

theorem probers_one_outcome_per_link:
  "fc_checkBrokenLinks fetch urls =
     map (\<lambda>u. (u, case fetch u of Response status \<Rightarrow> status < 200 \<or> 299 < status
                               | Rejected \<Rightarrow> True)) urls
   \<and> (probe_has_page run \<and> probe_timeout_set run \<and> probe_close_try run \<longrightarrow>
        pp_checkBrokenLinks run urls =
          Some (map (\<lambda>(i, u). (u, case probe_goto run i of
                                     GotoResponse status \<Rightarrow> 400 \<le> status
                                   | GotoNull \<Rightarrow> True | GotoThrows \<Rightarrow> True))
                  (enumerate 0 urls)))
   \<and> (\<forall>results. pp_checkBrokenLinks run urls = Some results \<longrightarrow> map fst results = urls)
   \<and> (\<not> probe_has_page run \<or> \<not> probe_timeout_set run \<or> \<not> probe_close_try run \<longrightarrow>
        pp_checkBrokenLinks run urls =
          (if probe_has_page run \<and> \<not> probe_close_catch run then None
           else Some (map (\<lambda>u. (u, False)) urls)))"
proof -
  have "fc_probe fetch = (\<lambda>u. (u, case fetch u of Response status \<Rightarrow> status < 200 \<or> 299 < status
                               | Rejected \<Rightarrow> True))"
    by (auto simp: fc_probe_def fun_eq_iff split: fetch_result.splits)
  then have 1: "fc_checkBrokenLinks fetch urls =
     map (\<lambda>u. (u, case fetch u of Response status \<Rightarrow> status < 200 \<or> 299 < status
                               | Rejected \<Rightarrow> True)) urls"
    by (simp add: fc_checkBrokenLinks_def fc_batches_eq)
  have 2: "pp_checkBrokenLinks run urls =
          Some (map (\<lambda>(i, u). (u, case probe_goto run i of
                                     GotoResponse status \<Rightarrow> 400 \<le> status
                                   | GotoNull \<Rightarrow> True | GotoThrows \<Rightarrow> True))
                  (enumerate 0 urls))"
    if "probe_has_page run \<and> probe_timeout_set run \<and> probe_close_try run"
    using that by (simp add: pp_checkBrokenLinks_def Let_def pp_results_closed_form)
  have 4: "pp_checkBrokenLinks run urls =
          (if probe_has_page run \<and> \<not> probe_close_catch run then None
           else Some (map (\<lambda>u. (u, False)) urls))"
    if "\<not> probe_has_page run \<or> \<not> probe_timeout_set run \<or> \<not> probe_close_try run"
    using that by (auto simp: pp_checkBrokenLinks_def Let_def pp_catch_def)
  have 3: "map fst results = urls" if r: "pp_checkBrokenLinks run urls = Some results" for results
  proof (cases "probe_has_page run \<and> probe_timeout_set run \<and> probe_close_try run")
    case True
    from 2 [OF True] r have e: "results =
        map (\<lambda>(i, u). (u, case probe_goto run i of
                                     GotoResponse status \<Rightarrow> 400 \<le> status
                                   | GotoNull \<Rightarrow> True | GotoThrows \<Rightarrow> True))
          (enumerate 0 urls)"
      by simp
    show ?thesis unfolding e by (rule map_fst_probed)
  next
    case False
    then have "\<not> probe_has_page run \<or> \<not> probe_timeout_set run \<or> \<not> probe_close_try run"
      by blast
    from 4 [OF this] r show ?thesis by (auto simp: comp_def split: if_splits)
  qed
  from 1 2 3 4 show ?thesis by blast
qed

text \<open>
  The same live link twice in one chunk, the first navigation superseded by the second:
  the two outcomes differ. And a run without a page.
\<close>

theorem probers_one_outcome_per_link_witness:
  "probe_has_page (smooth_run goto_first_superseded)
   \<and> probe_timeout_set (smooth_run goto_first_superseded)
   \<and> probe_close_try (smooth_run goto_first_superseded)
   \<and> pp_checkBrokenLinks (smooth_run goto_first_superseded) [''https://x/a'', ''https://x/a'']
       = Some [(''https://x/a'', True), (''https://x/a'', False)]
   \<and> map fst [(''https://x/a'', True), (''https://x/a'', False)] = [''https://x/a'', ''https://x/a'']
   \<and> \<not> probe_has_page no_page_run
   \<and> pp_checkBrokenLinks no_page_run [''https://x/a''] = Some [(''https://x/a'', False)]"
proof -
  have a: "probe_has_page (smooth_run goto_first_superseded)
       \<and> probe_timeout_set (smooth_run goto_first_superseded)
       \<and> probe_close_try (smooth_run goto_first_superseded)"
    by (simp add: smooth_run_def)
  have b: "\<not> probe_has_page no_page_run" by (simp add: no_page_run_def)
  note t1 = probers_one_outcome_per_link
      [of _ "[''https://x/a'', ''https://x/a'']" "smooth_run goto_first_superseded"]
  note t2 = probers_one_outcome_per_link [of _ "[''https://x/a'']" no_page_run]
  from t1 a have "pp_checkBrokenLinks (smooth_run goto_first_superseded)
        [''https://x/a'', ''https://x/a'']
       = Some (map (\<lambda>(i, u). (u, case probe_goto (smooth_run goto_first_superseded) i of
                                     GotoResponse status \<Rightarrow> 400 \<le> status
                                   | GotoNull \<Rightarrow> True | GotoThrows \<Rightarrow> True))
                  (enumerate 0 [''https://x/a'', ''https://x/a'']))"
    by blast
  then have c: "pp_checkBrokenLinks (smooth_run goto_first_superseded)
        [''https://x/a'', ''https://x/a'']
       = Some [(''https://x/a'', True), (''https://x/a'', False)]"
    by (simp add: smooth_run_def goto_first_superseded_def)
  from t2 b have "pp_checkBrokenLinks no_page_run [''https://x/a''] =
          (if probe_has_page no_page_run \<and> \<not> probe_close_catch no_page_run then None
           else Some (map (\<lambda>u. (u, False)) [''https://x/a'']))"
    by blast
  with b have d: "pp_checkBrokenLinks no_page_run [''https://x/a''] = Some [(''https://x/a'', False)]"
    by simp
  from a b c d show ?thesis by simp
qed

text \<open>
  A request answered with status 304 did not fail and its status is below 400, and the
  prober of the Firecrawl client reports the link as broken.
\<close>

theorem fc_prober_counterexample:
  "answers_304 ''https://x/a'' = Response 304
   \<and> fc_checkBrokenLinks answers_304 [''https://x/a''] = [(''https://x/a'', True)]"
  by (simp add: fc_checkBrokenLinks_def fc_batches_eq fc_probe_def answers_304_def)

section \<open>Properties of the structural extractors\<close>





























text \<open>
  C5. The claim is that every \<^verbatim>\<open>href\<close> that \<^verbatim>\<open>extractLinks\<close> emits is an absolute
  \<open>http\<close> or \<open>https\<close> URL and that relative values are resolved by the standard
  rules. The filter is \<^verbatim>\<open>href.startsWith('http')\<close>, under the comment
  \<^verbatim>\<open>Only include http/https links\<close>: the relative reference \<open>http-guide.html\<close>
  passes it and is emitted as it is, with neither scheme. And \<open>./c\<close> against the base
  \<open>https://x.com/a/b\<close> becomes \<open>https://x.com/a/bc\<close>, the path of the base and the
  reference glued together, where the standard resolution gives \<open>https://x.com/a/c\<close>.
\<close>

theorem extractLinks_keeps_non_url_href:
  "extractLinks (''<a href='' @ dquote @ ''http-guide.html'' @ dquote @ ''>Guide</a>'')
      (Some \<lparr>protocol = ''https:'', host = ''x.com'', pathname = ''/a/b''\<rparr>)
     = Some [\<lparr>href = ''http-guide.html'', ltext = ''Guide'', isBroken = None\<rparr>]
   \<and> \<not> startsWith ''http-guide.html'' ''http:''
   \<and> \<not> startsWith ''http-guide.html'' ''https:''
   \<and> extractLinks (''<a href='' @ dquote @ ''./c'' @ dquote @ ''>C</a>'')
      (Some \<lparr>protocol = ''https:'', host = ''x.com'', pathname = ''/a/b''\<rparr>)
     = Some [\<lparr>href = ''https://x.com/a/bc'', ltext = ''C'', isBroken = None\<rparr>]"
  by code_simp

end
